theory Spec2Isabelle
  imports Complex_Main "HOL-Library.Word" "HOL-Library.Log_Nat"
begin

section \<open>Data model of CTPHelper\<close>

text \<open>
  The helper class \<open>ctp::CTPHelper\<close> (CTPHelper.cxx) turns the dE/dx samples of a
  reconstructed track into the two input vectors of the convolutional track PID.

  Numbers: the C++ \<open>unsigned int\<close> members and locals are 32-bit words, so that
  subtraction wraps as in the code. A \<open>std::vector\<close> is a list whose \<open>size()\<close> is
  its length; where the code stores the size in an \<open>unsigned int\<close> it is truncated
  with \<open>of_nat\<close>. The dE/dx samples of an event are finite \<open>float\<close> values, each
  given by the real number it stands for; \<open>SmoothDedxVector\<close> compares and moves
  them, and the sums it stores are taken as exact. The means and sigmas are computed
  in single precision, operation by operation (section on single-precision arithmetic).

  Failures: \<open>std::vector::at\<close> out of range throws (\<open>OutOfRange\<close>); \<open>operator[]\<close>
  and iterator arithmetic out of range are undefined behaviour (\<open>UndefinedBehaviour\<close>);
  a loop that does not come back is \<open>NoReturn\<close>.
\<close>

datatype error = OutOfRange | UndefinedBehaviour | NoReturn

record CTPHelper =
  fMinTrackPoints :: "32 word"
  fDedxLength :: "32 word"
  fQMax :: real
  fQJump :: real

text \<open>The constructor's defaults: MinHits 50, DedxLength 100, MaxCharge 1000, MaxChargeJump 500.\<close>

definition defaultHelper :: CTPHelper where
  "defaultHelper =
     \<lparr>fMinTrackPoints = 50, fDedxLength = 100, fQMax = 1000, fQJump = 500\<rparr>"

section \<open>SmoothDedxVector\<close>

text \<open>
  The first loop, \<open>for(float val : dedx)\<close>, binds \<open>val\<close> to a copy of each element.
  The two assignments change the copy; the vector (third argument) is passed on as it is.
\<close>

fun clamp_loop :: "real \<Rightarrow> real list \<Rightarrow> real list \<Rightarrow> real list" where
  "clamp_loop qmax [] dedx = dedx"
| "clamp_loop qmax (val # rest) dedx =
     (let val1 = (if val > qmax then qmax else val);
          val2 = (if val1 < 0 then 0 else val1)
      in clamp_loop qmax rest dedx)"

text \<open>\<open>if((dedx[0] - dedx[1]) > fQJump) dedx[0] = dedx[1] + (dedx[1] - dedx[2]);\<close>\<close>

definition smooth_first :: "real \<Rightarrow> real list \<Rightarrow> error + real list" where
  "smooth_first qjump dedx =
     (if length dedx \<le> 1 then Inl UndefinedBehaviour
      else if dedx ! 0 - dedx ! 1 > qjump then
        (if length dedx \<le> 2 then Inl UndefinedBehaviour
         else Inr (dedx[0 := dedx ! 1 + (dedx ! 1 - dedx ! 2)]))
      else Inr dedx)"

text \<open>
  \<open>if((dedx[nQ-1] - dedx[nQ-2]) > fQJump) dedx[nQ-1] = dedx[nQ-2] + (dedx[nQ-2] - dedx[nQ-3]);\<close>
  with \<open>nQ\<close> an \<open>unsigned int\<close>.
\<close>

definition smooth_last :: "real \<Rightarrow> 32 word \<Rightarrow> real list \<Rightarrow> error + real list" where
  "smooth_last qjump nQ dedx =
     (if length dedx \<le> unat (nQ - 1) \<or> length dedx \<le> unat (nQ - 2)
      then Inl UndefinedBehaviour
      else if dedx ! unat (nQ - 1) - dedx ! unat (nQ - 2) > qjump then
        (if length dedx \<le> unat (nQ - 3) then Inl UndefinedBehaviour
         else Inr (dedx[unat (nQ - 1) :=
                 dedx ! unat (nQ - 2) + (dedx ! unat (nQ - 2) - dedx ! unat (nQ - 3))]))
      else Inr dedx)"

text \<open>\<open>for(unsigned int q = 1; q < nQ - 1; ++q)\<close>, the interior points.\<close>

function smooth_loop :: "real \<Rightarrow> 32 word \<Rightarrow> 32 word \<Rightarrow> real list \<Rightarrow> error + real list" where
  "smooth_loop qjump nQ q dedx =
     (if q < nQ - 1 then
        (if length dedx \<le> unat q \<or> length dedx \<le> unat (q - 1)
         then Inl UndefinedBehaviour
         else if dedx ! unat q - dedx ! unat (q - 1) > qjump then
           (if length dedx \<le> unat (q + 1) then Inl UndefinedBehaviour
            else smooth_loop qjump nQ (q + 1)
                   (dedx[unat q := (1 / 2) * (dedx ! unat (q - 1) + dedx ! unat (q + 1))]))
         else smooth_loop qjump nQ (q + 1) dedx)
      else Inr dedx)"
  by pat_completeness auto
termination
proof (relation "measure (\<lambda>(qjump, nQ, q, dedx). unat (nQ - 1) - unat q)")
  show "wf (measure (\<lambda>(qjump, nQ, q, dedx). unat (nQ - 1) - unat q))" by simp
next
  fix qjump :: real and nQ q :: "32 word" and dedx :: "real list"
  assume "q < nQ - 1"
  then show "((qjump, nQ, q + 1,
       dedx[unat q := (1 / 2) * (dedx ! unat (q - 1) + dedx ! unat (q + 1))]),
       qjump, nQ, q, dedx) \<in> measure (\<lambda>(qjump, nQ, q, dedx). unat (nQ - 1) - unat q)"
    by simp unat_arith
next
  fix qjump :: real and nQ q :: "32 word" and dedx :: "real list"
  assume "q < nQ - 1"
  then show "((qjump, nQ, q + 1, dedx), qjump, nQ, q, dedx)
       \<in> measure (\<lambda>(qjump, nQ, q, dedx). unat (nQ - 1) - unat q)"
    by simp unat_arith
qed

declare smooth_loop.simps [simp del]

definition SmoothDedxVector :: "CTPHelper \<Rightarrow> real list \<Rightarrow> error + real list" where
  "SmoothDedxVector h dedx0 =
     (let dedx = clamp_loop (fQMax h) dedx0 dedx0;
          nQ = (of_nat (length dedx) :: 32 word)
      in case smooth_first (fQJump h) dedx of
           Inl e \<Rightarrow> Inl e
         | Inr dedx1 \<Rightarrow>
             (case smooth_last (fQJump h) nQ dedx1 of
                Inl e \<Rightarrow> Inl e
              | Inr dedx2 \<Rightarrow> smooth_loop (fQJump h) nQ 1 dedx2))"

section \<open>Single-precision arithmetic\<close>

text \<open>
  A \<open>float\<close> is an IEEE 754 binary32 value: a finite number \<open>m * 2^e\<close> with
  \<open>\<bar>m\<bar> < 2^24\<close> and \<open>-149 \<le> e \<le> 104\<close>, an infinity or a NaN. The two zeros are one
  value \<open>Val 0\<close>.

  \<open>round32\<close> rounds a real number to the nearest \<open>float\<close>, ties to the even
  mantissa. With \<open>y = \<bar>x\<bar> * 2^149\<close>, the spacing of the floats around \<open>x\<close> is
  \<open>2^n / 2^149\<close>, where \<open>n\<close> is the number of bits of the integer part of \<open>y\<close> beyond
  24 (0 in the subnormal range); \<open>y / 2^n\<close> is rounded to an integer \<open>m\<close>. From
  \<open>m * 2^n = 2^277\<close> on, that is from \<open>2^128 - 2^103\<close> on, the result is an infinity.
\<close>

datatype float32 = Val real | PosInf | NegInf | NaN

definition round_half_even :: "real \<Rightarrow> int" where
  "round_half_even x =
     (let f = \<lfloor>x\<rfloor>; r = x - of_int f
      in if r < 1 / 2 then f
         else if 1 / 2 < r then f + 1
         else if even f then f else f + 1)"

definition round32 :: "real \<Rightarrow> float32" where
  "round32 x =
     (let y = \<bar>x\<bar> * 2 ^ 149;
          n = nat (bitlen \<lfloor>y\<rfloor> - 24);
          m = round_half_even (y / 2 ^ n)
      in if (2::real) ^ 277 \<le> of_int m * 2 ^ n
         then (if x < 0 then NegInf else PosInf)
         else Val (sgn x * of_int m * 2 ^ n / 2 ^ 149))"

text \<open>The real numbers that are \<open>float\<close> values: rounding leaves them as they are.\<close>

definition is_float32 :: "real \<Rightarrow> bool" where
  "is_float32 x \<longleftrightarrow> round32 x = Val x"

text \<open>
  The operations that the two statistics functions use: \<open>+\<close>, \<open>-\<close>, \<open>*\<close>, \<open>/\<close>
  and \<open>std::sqrt\<close> on \<open>float\<close>, each the exact result rounded to \<open>float\<close> (no
  wider intermediate precision, no fused multiply-add). A zero divisor is \<open>+0\<close> (in the
  code it is a converted size).
\<close>

definition sign_inf :: "bool \<Rightarrow> float32" where
  "sign_inf negative = (if negative then NegInf else PosInf)"

fun fadd :: "float32 \<Rightarrow> float32 \<Rightarrow> float32" where
  "fadd (Val a) (Val b) = round32 (a + b)"
| "fadd NaN _ = NaN"
| "fadd _ NaN = NaN"
| "fadd PosInf NegInf = NaN"
| "fadd NegInf PosInf = NaN"
| "fadd PosInf _ = PosInf"
| "fadd NegInf _ = NegInf"
| "fadd _ PosInf = PosInf"
| "fadd _ NegInf = NegInf"

fun fsub :: "float32 \<Rightarrow> float32 \<Rightarrow> float32" where
  "fsub (Val a) (Val b) = round32 (a - b)"
| "fsub NaN _ = NaN"
| "fsub _ NaN = NaN"
| "fsub PosInf PosInf = NaN"
| "fsub NegInf NegInf = NaN"
| "fsub PosInf _ = PosInf"
| "fsub NegInf _ = NegInf"
| "fsub _ PosInf = NegInf"
| "fsub _ NegInf = PosInf"

fun fmul :: "float32 \<Rightarrow> float32 \<Rightarrow> float32" where
  "fmul (Val a) (Val b) = round32 (a * b)"
| "fmul NaN _ = NaN"
| "fmul _ NaN = NaN"
| "fmul PosInf (Val b) = (if b = 0 then NaN else sign_inf (b < 0))"
| "fmul NegInf (Val b) = (if b = 0 then NaN else sign_inf (0 < b))"
| "fmul (Val a) PosInf = (if a = 0 then NaN else sign_inf (a < 0))"
| "fmul (Val a) NegInf = (if a = 0 then NaN else sign_inf (0 < a))"
| "fmul PosInf PosInf = PosInf"
| "fmul NegInf NegInf = PosInf"
| "fmul PosInf NegInf = NegInf"
| "fmul NegInf PosInf = NegInf"

fun fdiv :: "float32 \<Rightarrow> float32 \<Rightarrow> float32" where
  "fdiv (Val a) (Val b) =
     (if b = 0 then (if a = 0 then NaN else sign_inf (a < 0)) else round32 (a / b))"
| "fdiv NaN _ = NaN"
| "fdiv _ NaN = NaN"
| "fdiv PosInf (Val b) = sign_inf (b < 0)"
| "fdiv NegInf (Val b) = sign_inf (0 \<le> b)"
| "fdiv (Val a) PosInf = Val 0"
| "fdiv (Val a) NegInf = Val 0"
| "fdiv PosInf PosInf = NaN"
| "fdiv PosInf NegInf = NaN"
| "fdiv NegInf PosInf = NaN"
| "fdiv NegInf NegInf = NaN"

fun fsqrt :: "float32 \<Rightarrow> float32" where
  "fsqrt (Val a) = (if a < 0 then NaN else round32 (sqrt a))"
| "fsqrt PosInf = PosInf"
| "fsqrt NegInf = NaN"
| "fsqrt NaN = NaN"

section \<open>GetDedxMeanAndSigma\<close>

text \<open>
  The two accumulation loops, \<open>averageDedx += q\<close> and
  \<open>sigmaDedx += (mean - q)*(mean - q)\<close>, with the accumulator as last argument, and
  the two divisions by \<open>static_cast<float>(dedx.size())\<close>. On an empty vector the
  divisions are 0 by 0 and both results are NaN.
\<close>

fun average_loop :: "float32 list \<Rightarrow> float32 \<Rightarrow> float32" where
  "average_loop [] averageDedx = averageDedx"
| "average_loop (q # qs) averageDedx = average_loop qs (fadd averageDedx q)"

fun sigma_loop :: "float32 \<Rightarrow> float32 list \<Rightarrow> float32 \<Rightarrow> float32" where
  "sigma_loop mean [] sigmaDedx = sigmaDedx"
| "sigma_loop mean (q # qs) sigmaDedx =
     sigma_loop mean qs (fadd sigmaDedx (fmul (fsub mean q) (fsub mean q)))"

definition GetDedxMeanAndSigma :: "float32 list \<Rightarrow> float32 \<times> float32" where
  "GetDedxMeanAndSigma dedx =
     (let averageDedx = average_loop dedx (Val 0);
          mean = fdiv averageDedx (round32 (real (length dedx)));
          sigmaDedx = sigma_loop mean dedx (Val 0);
          sigma = fsqrt (fdiv sigmaDedx (round32 (real (length dedx))))
      in (mean, sigma))"

section \<open>PadDedxVector\<close>

text \<open>
  The values that \<open>gaussDist(generator)\<close> returns, one after the other, are a list of
  draws. The \<open>do ... while (randVal < 0)\<close> loop takes draws until one is not negative
  and hands back that draw with the draws left over; \<open>None\<close> when the draws run out
  before that, which stands for a loop that keeps sampling.
\<close>

fun draw_loop :: "real list \<Rightarrow> (real \<times> real list) option" where
  "draw_loop [] = None"
| "draw_loop (randVal # draws) =
     (if randVal < 0 then draw_loop draws else Some (randVal, draws))"

text \<open>
  \<open>for (unsigned int h = 0; h + originalSize < fDedxLength; ++h)\<close>, each round
  inserting the accepted draw at the front.
\<close>

function pad_loop ::
  "32 word \<Rightarrow> 32 word \<Rightarrow> 32 word \<Rightarrow> real list \<Rightarrow> real list \<Rightarrow> real list option" where
  "pad_loop dedxLength originalSize h dedx draws =
     (if h + originalSize < dedxLength then
        (case draw_loop draws of
           None \<Rightarrow> None
         | Some (randVal, draws') \<Rightarrow>
             pad_loop dedxLength originalSize (h + 1) (randVal # dedx) draws')
      else Some dedx)"
  by pat_completeness auto
termination
proof (relation "measure (\<lambda>(dedxLength, originalSize, h, dedx, draws).
                    unat dedxLength - unat (h + originalSize))")
  show "wf (measure (\<lambda>(dedxLength, originalSize, h, dedx, draws).
              unat dedxLength - unat (h + originalSize)))" by simp
next
  fix dedxLength originalSize h :: "32 word" and dedx draws :: "real list"
    and x2 :: "real \<times> real list" and randVal :: real and draws' :: "real list"
  assume "h + originalSize < dedxLength"
  then have "unat dedxLength - unat (h + originalSize + 1) < unat dedxLength - unat (h + originalSize)"
    by unat_arith
  then show "((dedxLength, originalSize, h + 1, randVal # dedx, draws'),
              dedxLength, originalSize, h, dedx, draws)
       \<in> measure (\<lambda>(dedxLength, originalSize, h, dedx, draws).
                    unat dedxLength - unat (h + originalSize))"
    by (simp add: add.commute add.left_commute)
qed

declare pad_loop.simps [simp del]

text \<open>
  \<open>gauss mean sigma\<close> is the sequence of draws of
  \<open>std::normal_distribution<float>(mean,sigma)\<close> on the default-constructed engine.
\<close>

definition PadDedxVector ::
  "CTPHelper \<Rightarrow> (float32 \<Rightarrow> float32 \<Rightarrow> real list) \<Rightarrow> real list \<Rightarrow> float32 \<Rightarrow> float32
     \<Rightarrow> real list option" where
  "PadDedxVector h gauss dedx mean sigma =
     (let originalSize = (of_nat (length dedx) :: 32 word)
      in pad_loop (fDedxLength h) originalSize 0 dedx (gauss mean sigma))"

section \<open>The event and the analysis utilities\<close>

text \<open>
  What the helper reads from outside the class, for a particle given by its key:
  the utilities \<open>IsTrack\<close>, \<open>IsShower\<close> and \<open>GetChildParticles\<close> of
  \<open>DUNEAnaPFParticleUtils\<close>, \<open>NumDaughters()\<close> of the particle, the \<open>dEdx()\<close>
  vector of the calorimetry of its track, the directions of the track's trajectory
  points, \<open>TVector3::Angle\<close>, and the draws of the normal distribution.
\<close>

type_synonym TVector3 = "real \<times> real \<times> real"

record Event =
  IsTrack :: "nat \<Rightarrow> bool"
  IsShower :: "nat \<Rightarrow> bool"
  ChildParticles :: "nat \<Rightarrow> nat list"
  NumDaughters :: "nat \<Rightarrow> int"
  dEdx :: "nat \<Rightarrow> real list"
  DirectionAtPoint :: "nat \<Rightarrow> TVector3 list"
  Angle :: "TVector3 \<Rightarrow> TVector3 \<Rightarrow> real"
  gaussDist :: "float32 \<Rightarrow> float32 \<Rightarrow> real list"

section \<open>GetDeflectionMeanAndSigma\<close>

text \<open>
  \<open>for(unsigned int p = 1; p < NPoints(); ++p)\<close> compares the 32-bit \<open>p\<close> with a
  \<open>size_t\<close>. When \<open>p\<close> is about to wrap the trajectory has at least \<open>2^32\<close> points,
  the test holds for every value of \<open>p\<close> and the loop does not come back. The
  \<open>Double_t\<close> that \<open>Angle\<close> returns is rounded to \<open>float\<close> by \<open>push_back\<close>.
\<close>

function deflection_loop ::
  "(TVector3 \<Rightarrow> TVector3 \<Rightarrow> real) \<Rightarrow> TVector3 list \<Rightarrow> 32 word \<Rightarrow> float32 list
     \<Rightarrow> error + float32 list" where
  "deflection_loop angle dirs p trajAngle =
     (if unat p < length dirs then
        (if length dirs \<le> unat (p - 1) then Inl UndefinedBehaviour
         else if p + 1 = 0 then Inl NoReturn
         else deflection_loop angle dirs (p + 1)
                (trajAngle @ [round32 (angle (dirs ! unat p) (dirs ! unat (p - 1)))]))
      else Inr trajAngle)"
  by pat_completeness auto
termination
proof (relation "measure (\<lambda>(angle, dirs, p, trajAngle). 2 ^ 32 - unat p)")
  show "wf (measure (\<lambda>(angle, dirs, p, trajAngle). 2 ^ 32 - unat p))" by simp
next
  fix angle :: "TVector3 \<Rightarrow> TVector3 \<Rightarrow> real" and dirs :: "TVector3 list"
    and p :: "32 word" and trajAngle :: "float32 list"
  assume wrap: "p + 1 \<noteq> 0"
  have "unat (1 + p) = Suc (unat p)"
    using wrap by (intro unatSuc) (simp add: add.commute)
  moreover have "unat p < 2 ^ 32"
    using unsigned_less [of p] by simp
  ultimately have "(2 ^ 32 :: nat) - unat (p + 1) < 2 ^ 32 - unat p"
    by (simp add: add.commute)
  then show "((angle, dirs, p + 1,
               trajAngle @ [round32 (angle (dirs ! unat p) (dirs ! unat (p - 1)))]),
              angle, dirs, p, trajAngle)
       \<in> measure (\<lambda>(angle, dirs, p, trajAngle). 2 ^ 32 - unat p)"
    by simp
qed

declare deflection_loop.simps [simp del]

definition GetDeflectionMeanAndSigma :: "Event \<Rightarrow> nat \<Rightarrow> error + float32 \<times> float32" where
  "GetDeflectionMeanAndSigma evt track =
     (case deflection_loop (Angle evt) (DirectionAtPoint evt track) 1 [] of
        Inl e \<Rightarrow> Inl e
      | Inr trajAngle \<Rightarrow>
          (let averageAngle = average_loop trajAngle (Val 0);
               mean = fdiv averageAngle (round32 (real (length trajAngle)));
               standardDevAngle = sigma_loop mean trajAngle (Val 0);
               sigma = fsqrt (fdiv standardDevAngle (round32 (real (length trajAngle))))
           in Inr (mean, sigma)))"

section \<open>GetChildParticles\<close>

text \<open>
  The loop over \<open>children\<close>. The two utility calls are made on \<open>part\<close>;
  \<open>child\<close> is used for \<open>NumDaughters()\<close>. A \<open>bool\<close> added to an \<open>unsigned int\<close>
  counts as 0 or 1, the \<open>int\<close> of \<open>NumDaughters()\<close> is converted to \<open>unsigned int\<close>.
\<close>

fun children_loop ::
  "Event \<Rightarrow> nat \<Rightarrow> nat list \<Rightarrow> 32 word \<times> 32 word \<times> 32 word \<Rightarrow> 32 word \<times> 32 word \<times> 32 word" where
  "children_loop evt part [] (nTrack, nShower, nGrand) = (nTrack, nShower, nGrand)"
| "children_loop evt part (child # children) (nTrack, nShower, nGrand) =
     children_loop evt part children
       (nTrack + of_bool (IsTrack evt part),
        nShower + of_bool (IsShower evt part),
        nGrand + word_of_int (NumDaughters evt child))"

definition GetChildParticles :: "Event \<Rightarrow> nat \<Rightarrow> 32 word \<times> 32 word \<times> 32 word" where
  "GetChildParticles evt part = children_loop evt part (ChildParticles evt part) (0, 0, 0)"

section \<open>GetNetworkInputs\<close>

text \<open>
  The window of the smoothed vector that the mean and sigma are taken from:
  \<open>for(unsigned int e = avStart; e > avEnd; --e) dedxTrunc.push_back(dedxVector.at(e))\<close>.
\<close>

function dedxTrunc_loop :: "real list \<Rightarrow> 32 word \<Rightarrow> 32 word \<Rightarrow> real list \<Rightarrow> error + real list" where
  "dedxTrunc_loop dedxVector avEnd e dedxTrunc =
     (if e > avEnd then
        (if length dedxVector \<le> unat e then Inl OutOfRange
         else dedxTrunc_loop dedxVector avEnd (e - 1) (dedxTrunc @ [dedxVector ! unat e]))
      else Inr dedxTrunc)"
  by pat_completeness auto
termination
proof (relation "measure (\<lambda>(dedxVector, avEnd, e, dedxTrunc). unat e)")
  show "wf (measure (\<lambda>(dedxVector, avEnd, e, dedxTrunc). unat e))" by simp
next
  fix dedxVector dedxTrunc :: "real list" and avEnd e :: "32 word"
  assume "avEnd < e"
  then have "unat (e - 1) < unat e"
    by unat_arith
  then show "((dedxVector, avEnd, e - 1, dedxTrunc @ [dedxVector ! unat e]),
              dedxVector, avEnd, e, dedxTrunc)
       \<in> measure (\<lambda>(dedxVector, avEnd, e, dedxTrunc). unat e)"
    by simp
qed

declare dedxTrunc_loop.simps [simp del]

definition pointsForAverage :: "CTPHelper \<Rightarrow> 32 word" where
  "pointsForAverage h = (fDedxLength h - fMinTrackPoints h) div 3"

definition avStart :: "CTPHelper \<Rightarrow> real list \<Rightarrow> 32 word" where
  "avStart h dedxVector = of_nat (length dedxVector) - 1 - pointsForAverage h"

definition avEnd :: "CTPHelper \<Rightarrow> real list \<Rightarrow> 32 word" where
  "avEnd h dedxVector = of_nat (length dedxVector) - 1 - (2 * pointsForAverage h)"

definition dedxTrunc :: "CTPHelper \<Rightarrow> real list \<Rightarrow> error + real list" where
  "dedxTrunc h dedxVector =
     dedxTrunc_loop dedxVector (avEnd h dedxVector) (avStart h dedxVector) []"

text \<open>
  \<open>finalInputDedx.insert(finalInputDedx.begin(), dedxVector.end() - fDedxLength, dedxVector.end())\<close>:
  an iterator before \<open>begin()\<close> is undefined behaviour.
\<close>

definition finalInputDedx :: "CTPHelper \<Rightarrow> real list \<Rightarrow> error + real list" where
  "finalInputDedx h dedxVector =
     (if length dedxVector < unat (fDedxLength h) then Inl UndefinedBehaviour
      else Inr (drop (length dedxVector - unat (fDedxLength h)) dedxVector))"

text \<open>The member functions that an invocation calls, in the order of the calls.\<close>

datatype call =
  CallSmoothDedxVector | CallGetDedxMeanAndSigma | CallPadDedxVector
  | CallGetChildParticles | CallGetDeflectionMeanAndSigma

text \<open>
  \<open>if(dedxVector.size() < fMinTrackPoints) this->PadDedxVector(dedxVector,dedxMean,dedxSigma);\<close>
\<close>

definition pad_step ::
  "CTPHelper \<Rightarrow> Event \<Rightarrow> real list \<Rightarrow> float32 \<Rightarrow> float32 \<Rightarrow> call list \<times> real list option" where
  "pad_step h evt dedxVector dedxMean dedxSigma =
     (if length dedxVector < unat (fMinTrackPoints h)
      then ([CallPadDedxVector], PadDedxVector h (gaussDist evt) dedxVector dedxMean dedxSigma)
      else ([], Some dedxVector))"

text \<open>
  The whole function, with the list of member calls made next to the result. The result
  is \<open>netInputs\<close>: empty on the two early returns, else the two vectors. The three
  counts are converted from \<open>unsigned int\<close> to \<open>float\<close> by \<open>push_back\<close>.
\<close>

definition GetNetworkInputs_calls ::
  "CTPHelper \<Rightarrow> Event \<Rightarrow> nat \<Rightarrow> call list \<times> (error + float32 list list)" where
  "GetNetworkInputs_calls h evt part =
     (if \<not> IsTrack evt part then ([], Inr [])
      else if length (dEdx evt part) < unat (fMinTrackPoints h) then ([], Inr [])
      else
        (case SmoothDedxVector h (dEdx evt part) of
           Inl e \<Rightarrow> ([CallSmoothDedxVector], Inl e)
         | Inr dedxVector \<Rightarrow>
        (case dedxTrunc h dedxVector of
           Inl e \<Rightarrow> ([CallSmoothDedxVector], Inl e)
         | Inr trunc \<Rightarrow>
        (case GetDedxMeanAndSigma (map Val trunc) of (dedxMean, dedxSigma) \<Rightarrow>
        (case pad_step h evt dedxVector dedxMean dedxSigma of
           (padCalls, None) \<Rightarrow>
             ([CallSmoothDedxVector, CallGetDedxMeanAndSigma] @ padCalls, Inl NoReturn)
         | (padCalls, Some padded) \<Rightarrow>
        (case finalInputDedx h padded of
           Inl e \<Rightarrow> ([CallSmoothDedxVector, CallGetDedxMeanAndSigma] @ padCalls, Inl e)
         | Inr finalDedx \<Rightarrow>
        (case GetChildParticles evt part of (nTrack, nShower, nGrand) \<Rightarrow>
        (case GetDeflectionMeanAndSigma evt part of
           Inl e \<Rightarrow>
             ([CallSmoothDedxVector, CallGetDedxMeanAndSigma] @ padCalls
                @ [CallGetChildParticles, CallGetDeflectionMeanAndSigma], Inl e)
         | Inr (deflectionMean, deflectionSigma) \<Rightarrow>
             ([CallSmoothDedxVector, CallGetDedxMeanAndSigma] @ padCalls
                @ [CallGetChildParticles, CallGetDeflectionMeanAndSigma],
              Inr [map Val finalDedx,
                   [round32 (real (unat nTrack)), round32 (real (unat nShower)),
                    round32 (real (unat nGrand)),
                    dedxMean, dedxSigma, deflectionMean, deflectionSigma]])))))))))"

definition GetNetworkInputs :: "CTPHelper \<Rightarrow> Event \<Rightarrow> nat \<Rightarrow> error + float32 list list" where
  "GetNetworkInputs h evt part = snd (GetNetworkInputs_calls h evt part)"

section \<open>Concrete configurations and events\<close>

text \<open>A helper configured with MinHits 3 and DedxLength 6.\<close>

definition shortHelper :: CTPHelper where
  "shortHelper = \<lparr>fMinTrackPoints = 3, fDedxLength = 6, fQMax = 1000, fQJump = 500\<rparr>"

text \<open>
  An event in which particle 0 is track-like and has the two children 1 (shower-like,
  with three daughters) and 2 (track-like, without daughters). The track of particle 0
  has the given dE/dx samples and a straight trajectory of three points.
\<close>

definition trackEvent :: "real list \<Rightarrow> Event" where
  "trackEvent samples =
     \<lparr>IsTrack = (\<lambda>p. p = 0 \<or> p = 2),
      IsShower = (\<lambda>p. p = 1),
      ChildParticles = (\<lambda>p. if p = 0 then [1, 2] else []),
      NumDaughters = (\<lambda>p. if p = 0 then 2 else if p = 1 then 3 else 0),
      dEdx = (\<lambda>p. samples),
      DirectionAtPoint = (\<lambda>p. [(0, 0, 1), (0, 0, 1), (0, 0, 1)]),
      Angle = (\<lambda>a b. 0),
      gaussDist = (\<lambda>mean sigma. [])\<rparr>"

text \<open>A helper configured with MinHits 3 and DedxLength 9.\<close>

definition mediumHelper :: CTPHelper where
  "mediumHelper = \<lparr>fMinTrackPoints = 3, fDedxLength = 9, fQMax = 1000, fQJump = 500\<rparr>"

text \<open>
  The angle between two vectors, and the event \<open>trackEvent\<close> with a bent trajectory:
  three unit directions in a plane, at the polar angles 0, 1/2 and 3/4.
\<close>

definition angle3 :: "TVector3 \<Rightarrow> TVector3 \<Rightarrow> real" where
  "angle3 a b =
     (case (a, b) of ((ax, ay, az), (bx, by, bz)) \<Rightarrow>
        arccos ((ax * bx + ay * by + az * bz)
                / (sqrt (ax * ax + ay * ay + az * az) * sqrt (bx * bx + by * by + bz * bz))))"

definition bentTrackEvent :: "real list \<Rightarrow> Event" where
  "bentTrackEvent samples =
     (trackEvent samples)
       \<lparr>DirectionAtPoint :=
          (\<lambda>p. [(1, 0, 0), (cos (1 / 2), sin (1 / 2), 0), (cos (3 / 4), sin (3 / 4), 0)]),
        Angle := angle3\<rparr>"

section \<open>The statistics as the specification words them\<close>

text \<open>
  The specification's text for the mean and the standard deviation:
  \<open>mean = sum(values) / count\<close> and \<open>stddev = sqrt(sum((mean - v)^2) / count)\<close>,
  over the real numbers.
\<close>

definition meanAndStdDev :: "real list \<Rightarrow> real \<times> real" where
  "meanAndStdDev values =
     (let mean = sum_list values / real (length values)
      in (mean, sqrt ((\<Sum>v\<leftarrow>values. (mean - v)\<^sup>2) / real (length values))))"

text \<open>
  The sums that an accumulation loop goes through, and the condition that no operation
  of \<open>GetDedxMeanAndSigma\<close> rounds: each exact intermediate result is a \<open>float\<close>.
\<close>

fun running_sums :: "real \<Rightarrow> real list \<Rightarrow> real list" where
  "running_sums acc [] = []"
| "running_sums acc (q # qs) = (acc + q) # running_sums (acc + q) qs"

definition no_rounding :: "real list \<Rightarrow> bool" where
  "no_rounding dedx \<longleftrightarrow>
     (let n = real (length dedx);
          mean = sum_list dedx / n;
          squares = map (\<lambda>q. (mean - q) * (mean - q)) dedx;
          variance = sum_list squares / n
      in list_all is_float32 (running_sums 0 dedx)
         \<and> is_float32 n \<and> is_float32 mean
         \<and> list_all (\<lambda>q. is_float32 (mean - q)) dedx
         \<and> list_all is_float32 squares
         \<and> list_all is_float32 (running_sums 0 squares)
         \<and> is_float32 variance \<and> is_float32 (sqrt variance))"

section \<open>The window as the specification words it\<close>

text \<open>
  The specification's text for the window of the mean and sigma: the indices
  \<open>[size-1-2*pointsForAverage, size-1-pointsForAverage)\<close>, with
  \<open>pointsForAverage = (targetLength - minLength) / 3\<close>.
\<close>

definition claimed_window :: "CTPHelper \<Rightarrow> real list \<Rightarrow> real list" where
  "claimed_window h dedxVector =
     (let n = length dedxVector;
          p = (unat (fDedxLength h) - unat (fMinTrackPoints h)) div 3
      in map ((!) dedxVector) [n - 1 - 2 * p ..< n - 1 - p])"

section \<open>Word arithmetic on sizes\<close>

lemma unat_size: "n < 2 ^ 32 \<Longrightarrow> unat (of_nat n :: 32 word) = n"
  by (simp add: unat_of_nat)

lemma unat_size_minus:
  "n < 2 ^ 32 \<Longrightarrow> k \<le> n \<Longrightarrow> unat ((of_nat n :: 32 word) - of_nat k) = n - k"
proof -
  assume a: "n < 2 ^ 32" "k \<le> n"
  have "(of_nat n :: 32 word) - of_nat k = of_nat (n - k)" using a by simp
  moreover have "n - k < 2 ^ 32" using a by simp
  ultimately show ?thesis by (simp add: unat_of_nat)
qed

lemma unat_pred: "1 \<le> unat (q::32 word) \<Longrightarrow> unat (q - 1) = unat q - 1"
  by (metis unat_minus_one unat_0 not_one_le_zero)

lemma unat_succ: "(q::32 word) < m \<Longrightarrow> unat (q + 1) = Suc (unat q)"
  by unat_arith

section \<open>Evaluating single-precision arithmetic\<close>

text \<open>
  \<open>round32\<close> written without local bindings, and the number of bits of a numeral:
  with these the simplifier rounds a given rational number.
\<close>

lemma round32_unfold:
  "round32 x =
     (if (2::real) ^ 277 \<le>
           of_int (round_half_even (\<bar>x\<bar> * 2 ^ 149 / 2 ^ nat (bitlen \<lfloor>\<bar>x\<bar> * 2 ^ 149\<rfloor> - 24)))
             * 2 ^ nat (bitlen \<lfloor>\<bar>x\<bar> * 2 ^ 149\<rfloor> - 24)
      then (if x < 0 then NegInf else PosInf)
      else Val (sgn x
             * of_int (round_half_even (\<bar>x\<bar> * 2 ^ 149 / 2 ^ nat (bitlen \<lfloor>\<bar>x\<bar> * 2 ^ 149\<rfloor> - 24)))
             * 2 ^ nat (bitlen \<lfloor>\<bar>x\<bar> * 2 ^ 149\<rfloor> - 24) / 2 ^ 149))"
  by (simp add: round32_def Let_def)

lemma bitlen_numeral: "bitlen (numeral k) = bitlen (numeral k div 2) + 1"
  by (subst compute_bitlen) simp

lemma bitlen_one: "bitlen 1 = 1"
  by (subst compute_bitlen) simp

lemmas round32_eval = round32_unfold bitlen_numeral bitlen_one round_half_even_def Let_def

lemma is_float32_zero: "is_float32 0"
  by (simp add: is_float32_def round32_eval)

section \<open>Properties of SmoothDedxVector\<close>

lemma clamp_loop_id: "clamp_loop qmax vals dedx = dedx"
  by (induction vals) (simp_all add: Let_def)

lemma smooth_loop_id:
  assumes "length dedx < 2 ^ 32" "nQ = of_nat (length dedx)" "1 \<le> unat q" "1 \<le> length dedx"
    and "\<forall>i. unat q \<le> i \<and> i < length dedx - 1 \<longrightarrow> dedx ! i - dedx ! (i - 1) \<le> qjump"
  shows "smooth_loop qjump nQ q dedx = Inr dedx"
  using assms
proof (induction qjump nQ q dedx rule: smooth_loop.induct)
  case (1 qjump nQ q dedx)
  have nQ1: "unat (nQ - 1) = length dedx - 1"
    using unat_size_minus [of "length dedx" 1] "1.prems"(1,2,4) by simp
  show ?case
  proof (cases "q < nQ - 1")
    case False
    then show ?thesis by (subst smooth_loop.simps) simp
  next
    case True
    then have q: "unat q < length dedx - 1"
      using nQ1 by (simp add: word_less_nat_alt)
    have q1: "unat (q - 1) = unat q - 1"
      using "1.prems"(3) by (rule unat_pred)
    have qs: "unat (q + 1) = Suc (unat q)"
      using True by (rule unat_succ)
    have nojump: "\<not> dedx ! unat q - dedx ! unat (q - 1) > qjump"
      using "1.prems"(5) q q1 by (simp add: not_less)
    have inr: "\<not> (length dedx \<le> unat q \<or> length dedx \<le> unat (q - 1))"
      using q q1 by arith
    have rest: "\<forall>i. unat (q + 1) \<le> i \<and> i < length dedx - 1 \<longrightarrow> dedx ! i - dedx ! (i - 1) \<le> qjump"
      using "1.prems"(5) qs by simp
    have "smooth_loop qjump nQ (q + 1) dedx = Inr dedx"
      using "1.IH"(2) [OF True inr nojump "1.prems"(1,2) _ "1.prems"(4) rest] qs by simp
    then show ?thesis
      using True inr nojump by (subst smooth_loop.simps) simp
  qed
qed


lemma smooth_first_length: "smooth_first qjump dedx = Inr dedx' \<Longrightarrow> length dedx' = length dedx"
  by (auto simp: smooth_first_def split: if_splits)

lemma smooth_last_length: "smooth_last qjump nQ dedx = Inr dedx' \<Longrightarrow> length dedx' = length dedx"
  by (auto simp: smooth_last_def split: if_splits)

lemma smooth_loop_length: "smooth_loop qjump nQ q dedx = Inr dedx' \<Longrightarrow> length dedx' = length dedx"
proof (induction qjump nQ q dedx rule: smooth_loop.induct)
  case (1 qjump nQ q dedx)
  show ?case
  proof (cases "q < nQ - 1")
    case False
    with "1.prems" show ?thesis by (subst (asm) smooth_loop.simps) simp
  next
    case True
    note lt = this
    show ?thesis
    proof (cases "length dedx \<le> unat q \<or> length dedx \<le> unat (q - 1)")
      case True
      with lt "1.prems" show ?thesis by (subst (asm) smooth_loop.simps) simp
    next
      case False
      note inr = this
      show ?thesis
      proof (cases "dedx ! unat q - dedx ! unat (q - 1) > qjump")
        case True
        note jump = this
        show ?thesis
        proof (cases "length dedx \<le> unat (q + 1)")
          case True
          with lt inr jump "1.prems" show ?thesis by (subst (asm) smooth_loop.simps) simp
        next
          case False
          have "smooth_loop qjump nQ (q + 1)
                  (dedx[unat q := (1 / 2) * (dedx ! unat (q - 1) + dedx ! unat (q + 1))]) = Inr dedx'"
            using lt inr jump False "1.prems" by (subst (asm) smooth_loop.simps) simp
          from "1.IH"(1) [OF lt inr jump False this] show ?thesis by simp
        qed
      next
        case False
        have "smooth_loop qjump nQ (q + 1) dedx = Inr dedx'"
          using lt inr False "1.prems" by (subst (asm) smooth_loop.simps) simp
        from "1.IH"(2) [OF lt inr False this] show ?thesis .
      qed
    qed
  qed
qed

lemma SmoothDedxVector_length:
  "SmoothDedxVector h dedx = Inr dedx' \<Longrightarrow> length dedx' = length dedx"
proof -
  assume run: "SmoothDedxVector h dedx = Inr dedx'"
  let ?nQ = "of_nat (length dedx) :: 32 word"
  from run obtain dedx1 where f: "smooth_first (fQJump h) dedx = Inr dedx1"
    by (cases "smooth_first (fQJump h) dedx") (simp_all add: SmoothDedxVector_def clamp_loop_id)
  from run f obtain dedx2 where l: "smooth_last (fQJump h) ?nQ dedx1 = Inr dedx2"
    by (cases "smooth_last (fQJump h) ?nQ dedx1") (simp_all add: SmoothDedxVector_def clamp_loop_id)
  from run f l have "smooth_loop (fQJump h) ?nQ 1 dedx2 = Inr dedx'"
    by (simp add: SmoothDedxVector_def clamp_loop_id del: smooth_loop.simps)
  then have "length dedx' = length dedx2"
    by (rule smooth_loop_length)
  with smooth_first_length [OF f] smooth_last_length [OF l] show ?thesis by simp
qed

lemma SmoothDedxVector_no_jump:
  assumes len: "3 \<le> length dedx" and small: "length dedx < 2 ^ 32"
    and first: "dedx ! 0 - dedx ! 1 \<le> fQJump h"
    and last: "dedx ! (length dedx - 1) - dedx ! (length dedx - 2) \<le> fQJump h"
    and interior: "\<forall>q. 1 \<le> q \<and> q < length dedx - 1 \<longrightarrow> dedx ! q - dedx ! (q - 1) \<le> fQJump h"
  shows "SmoothDedxVector h dedx = Inr dedx"
proof -
  let ?nQ = "of_nat (length dedx) :: 32 word"
  have n1: "unat (?nQ - 1) = length dedx - 1"
    using unat_size_minus [of "length dedx" 1] len small by simp
  have n2: "unat (?nQ - 2) = length dedx - 2"
    using unat_size_minus [of "length dedx" 2] len small by simp
  have f: "smooth_first (fQJump h) dedx = Inr dedx"
    using len first by (simp add: smooth_first_def)
  have l: "smooth_last (fQJump h) ?nQ dedx = Inr dedx"
  proof -
    have "\<not> (length dedx \<le> unat (?nQ - 1) \<or> length dedx \<le> unat (?nQ - 2))"
      using len n1 n2 by arith
    moreover have "\<not> dedx ! unat (?nQ - 1) - dedx ! unat (?nQ - 2) > fQJump h"
      using last n1 n2 by simp
    ultimately show ?thesis by (simp add: smooth_last_def)
  qed
  have "smooth_loop (fQJump h) ?nQ 1 dedx = Inr dedx"
    using small len interior by (intro smooth_loop_id) simp_all
  then show ?thesis
    using f l by (simp add: SmoothDedxVector_def clamp_loop_id del: smooth_loop.simps)
qed

text \<open>
  C1. The claim: before the jump smoothing, every element above \<open>fQMax\<close> is set to
  \<open>fQMax\<close> and every element below 0 is set to 0, in the vector that the smoothing
  then works on. The code's first loop writes to a copy of each element, so the vector
  is not changed (\<open>clamp_loop_id\<close>). With the default configuration, a vector of 50
  samples, 25 times 1200 and then 25 times -5, has no jump; it leaves the first loop,
  and the whole function, as it came in: 1200 is still above \<open>fQMax = 1000\<close> and -5
  still below 0.
\<close>

theorem SmoothDedxVector_does_not_clamp:
  "clamp_loop (fQMax defaultHelper) (replicate 25 1200 @ replicate 25 (-5))
      (replicate 25 1200 @ replicate 25 (-5))
     = replicate 25 1200 @ replicate 25 (-5)
   \<and> SmoothDedxVector defaultHelper (replicate 25 1200 @ replicate 25 (-5))
     = Inr (replicate 25 1200 @ replicate 25 (-5))"
  by code_simp

text \<open>
  C8. For a vector of at least 3 (and fewer than \<open>2^32\<close>) elements, all within
  \<open>[0, fQMax]\<close>, in which none of the differences that the jump rules test is above
  \<open>fQJump\<close> (first against second element, last against the one before it, every
  interior element against its predecessor), \<open>SmoothDedxVector\<close> returns the vector
  unchanged; in particular its length is preserved.
\<close>

theorem SmoothDedxVector_identity:
  assumes "3 \<le> length dedx" and "length dedx < 2 ^ 32"
    and "\<forall>x \<in> set dedx. 0 \<le> x \<and> x \<le> fQMax h"
    and "dedx ! 0 - dedx ! 1 \<le> fQJump h"
    and "dedx ! (length dedx - 1) - dedx ! (length dedx - 2) \<le> fQJump h"
    and "\<forall>q. 1 \<le> q \<and> q < length dedx - 1 \<longrightarrow> dedx ! q - dedx ! (q - 1) \<le> fQJump h"
  shows "SmoothDedxVector h dedx = Inr dedx"
  using SmoothDedxVector_no_jump [OF assms(1,2,4,5,6)] .

theorem SmoothDedxVector_identity_witness:
  "SmoothDedxVector defaultHelper [10, 20, 15, 400] = Inr [10, 20, 15, 400]"
proof -
  have i: "\<forall>q. 1 \<le> q \<and> q < length [10, 20, 15, 400 :: real] - 1 \<longrightarrow>
            [10, 20, 15, 400 :: real] ! q - [10, 20, 15, 400] ! (q - 1) \<le> fQJump defaultHelper"
    by (auto simp: defaultHelper_def nth_Cons')
  show ?thesis
    using SmoothDedxVector_identity [of "[10, 20, 15, 400]" defaultHelper, OF _ _ _ _ _ i]
    by (simp add: defaultHelper_def)
qed

section \<open>Properties of GetDedxMeanAndSigma\<close>

text \<open>
  Without samples, and for a trajectory of fewer than two points, the results are NaN.
  When no operation rounds, the loops compute the exact sums.
\<close>

lemma GetDedxMeanAndSigma_empty: "GetDedxMeanAndSigma [] = (NaN, NaN)"
  by (simp add: GetDedxMeanAndSigma_def round32_eval)

lemma GetDeflectionMeanAndSigma_one_point:
  "length (DirectionAtPoint evt track) \<le> 1 \<Longrightarrow>
     GetDeflectionMeanAndSigma evt track = Inr (NaN, NaN)"
  by (simp add: GetDeflectionMeanAndSigma_def deflection_loop.simps round32_eval)

lemma average_loop_exact:
  "list_all is_float32 (running_sums acc qs) \<Longrightarrow>
     average_loop (map Val qs) (Val acc) = Val (acc + sum_list qs)"
  by (induction qs arbitrary: acc) (simp_all add: is_float32_def add.assoc)

lemma sigma_loop_exact:
  "list_all (\<lambda>q. is_float32 (mean - q)) qs \<Longrightarrow>
   list_all is_float32 (map (\<lambda>q. (mean - q) * (mean - q)) qs) \<Longrightarrow>
   list_all is_float32 (running_sums acc (map (\<lambda>q. (mean - q) * (mean - q)) qs)) \<Longrightarrow>
     sigma_loop (Val mean) (map Val qs) (Val acc) =
       Val (acc + (\<Sum>q\<leftarrow>qs. (mean - q) * (mean - q)))"
  by (induction qs arbitrary: acc) (simp_all add: is_float32_def add.assoc)

lemma GetDedxMeanAndSigma_no_rounding:
  assumes "dedx \<noteq> []" and "no_rounding dedx"
  shows "GetDedxMeanAndSigma (map Val dedx) =
           (Val (fst (meanAndStdDev dedx)), Val (snd (meanAndStdDev dedx)))"
proof -
  let ?n = "real (length dedx)"
  let ?mean = "sum_list dedx / ?n"
  let ?squares = "map (\<lambda>q. (?mean - q) * (?mean - q)) dedx"
  let ?variance = "sum_list ?squares / ?n"
  have n0: "?n \<noteq> 0"
    using assms(1) by simp
  have sums: "list_all is_float32 (running_sums 0 dedx)"
    and n: "round32 ?n = Val ?n" and m: "round32 ?mean = Val ?mean"
    and diffs: "list_all (\<lambda>q. is_float32 (?mean - q)) dedx"
    and sq: "list_all is_float32 ?squares"
    and sqsums: "list_all is_float32 (running_sums 0 ?squares)"
    and v: "round32 ?variance = Val ?variance"
    and r: "round32 (sqrt ?variance) = Val (sqrt ?variance)"
    using assms(2) by (simp_all add: no_rounding_def Let_def is_float32_def)
  have a: "average_loop (map Val dedx) (Val 0) = Val (sum_list dedx)"
    using average_loop_exact [OF sums] by simp
  have mean: "fdiv (average_loop (map Val dedx) (Val 0)) (round32 ?n) = Val ?mean"
    using n0 by (simp add: a n m)
  have s: "sigma_loop (Val ?mean) (map Val dedx) (Val 0) = Val (sum_list ?squares)"
    using sigma_loop_exact [OF diffs sq sqsums] by (simp add: comp_def)
  have var0: "0 \<le> ?variance"
    by (intro divide_nonneg_nonneg sum_list_nonneg) auto
  have sigma: "fsqrt (fdiv (sigma_loop (Val ?mean) (map Val dedx) (Val 0)) (round32 ?n))
                 = Val (sqrt ?variance)"
    using n0 var0 by (simp add: s n v r)
  have spec: "meanAndStdDev dedx = (?mean, sqrt ?variance)"
    by (simp add: meanAndStdDev_def Let_def power2_eq_square comp_def)
  show ?thesis
    using mean sigma by (simp add: GetDedxMeanAndSigma_def Let_def spec)
qed

lemma running_sums_replicate:
  "\<forall>k. 1 \<le> k \<and> k \<le> j + n \<longrightarrow> is_float32 (real k * v) \<Longrightarrow>
     list_all is_float32 (running_sums (real j * v) (replicate n v))"
proof (induction n arbitrary: j)
  case 0
  then show ?case by simp
next
  case (Suc n)
  have step: "real j * v + v = real (Suc j) * v"
    by (simp add: algebra_simps)
  have "is_float32 (real (Suc j) * v)"
    using Suc.prems by (metis Suc_le_mono add_Suc_right le_add1 le_add2 plus_1_eq_Suc)
  moreover have "list_all is_float32 (running_sums (real (Suc j) * v) (replicate n v))"
    using Suc.prems by (intro Suc.IH) simp
  ultimately show ?case
    by (simp add: step del: of_nat_Suc)
qed

lemma GetDedxMeanAndSigma_constant:
  assumes "0 < n" and "\<forall>k. 1 \<le> k \<and> k \<le> n \<longrightarrow> is_float32 (real k * v)"
    and "is_float32 (real n)"
  shows "GetDedxMeanAndSigma (replicate n (Val v)) = (Val v, Val 0)"
proof -
  let ?dedx = "replicate n v"
  have mean: "sum_list ?dedx / real (length ?dedx) = v"
    using assms(1) by (simp add: sum_list_replicate)
  have v: "is_float32 v"
    using assms(1,2) by (metis One_nat_def Suc_leI le_refl mult_1 of_nat_1)
  have sq: "map (\<lambda>q. (v - q) * (v - q)) ?dedx = replicate n 0"
    by (simp add: map_replicate_const)
  have zeros: "list_all is_float32 (running_sums 0 (replicate n 0))"
    using running_sums_replicate [of 0 n 0] is_float32_zero by simp
  have "list_all is_float32 (running_sums 0 ?dedx)"
    using running_sums_replicate [of 0 n v] assms(2) by simp
  then have "no_rounding ?dedx"
    using assms(1,3) v zeros is_float32_zero
    by (simp add: no_rounding_def Let_def mean sq sum_list_replicate list_all_iff)
  from GetDedxMeanAndSigma_no_rounding [OF _ this] assms(1)
  have "GetDedxMeanAndSigma (map Val ?dedx) =
          (Val (fst (meanAndStdDev ?dedx)), Val (snd (meanAndStdDev ?dedx)))"
    by auto
  moreover have "meanAndStdDev ?dedx = (v, 0)"
    using assms(1) by (simp add: meanAndStdDev_def Let_def sum_list_replicate map_replicate_const)
  ultimately show ?thesis
    by (simp add: map_replicate)
qed

lemma sqrt_2_52: "sqrt (1 / 4503599627370496) = 1 / 67108864"
  by (rule real_sqrt_unique) (simp_all add: power2_eq_square)

text \<open>
  C7. The claim: for every non-empty vector the function returns
  \<open>mean = sum(values) / count\<close> and \<open>sigma = sqrt(sum((mean - v)^2) / count)\<close>, and
  for a vector whose elements all equal \<open>v\<close> it returns mean \<open>v\<close> and sigma 0. The
  code adds, subtracts, multiplies and divides in \<open>float\<close>, and each operation
  rounds. For 16 samples that all are the \<open>float\<close> next to 0.1, namely
  \<open>13421773 / 2^27\<close>, the running sum is rounded on the way; the function returns the
  mean \<open>13421775 / 2^27\<close>, two units in the last place above the samples, and the
  sigma \<open>2^-26\<close>, where the formulas give that sample value and 0.
\<close>

theorem GetDedxMeanAndSigma_exact_counterexample:
  "is_float32 (13421773 / 134217728)
   \<and> GetDedxMeanAndSigma (replicate 16 (Val (13421773 / 134217728)))
       = (Val (13421775 / 134217728), Val (1 / 67108864))
   \<and> meanAndStdDev (replicate 16 (13421773 / 134217728)) = (13421773 / 134217728, 0)
   \<and> GetDedxMeanAndSigma (map Val (replicate 16 (13421773 / 134217728)))
       \<noteq> (Val (fst (meanAndStdDev (replicate 16 (13421773 / 134217728)))),
           Val (snd (meanAndStdDev (replicate 16 (13421773 / 134217728)))))"
proof -
  have v: "is_float32 (13421773 / 134217728)"
    by (simp add: is_float32_def round32_eval)
  have a: "average_loop (replicate 16 (Val (13421773 / 134217728))) (Val 0)
             = Val (13421775 / 8388608)"
    by (simp add: round32_eval eval_nat_numeral)
  have n: "round32 (real (length (replicate 16 (Val (13421773 / 134217728))))) = Val 16"
    by (simp add: round32_eval)
  have m: "fdiv (Val (13421775 / 8388608)) (Val 16) = Val (13421775 / 134217728)"
    by (simp add: round32_eval)
  have s: "sigma_loop (Val (13421775 / 134217728)) (replicate 16 (Val (13421773 / 134217728)))
             (Val 0) = Val (1 / 281474976710656)"
    by (simp add: round32_eval eval_nat_numeral)
  have d: "fdiv (Val (1 / 281474976710656)) (Val 16) = Val (1 / 4503599627370496)"
    by (simp add: round32_eval)
  have r: "fsqrt (Val (1 / 4503599627370496)) = Val (1 / 67108864)"
    by (simp add: sqrt_2_52) (simp add: round32_eval)
  have code: "GetDedxMeanAndSigma (replicate 16 (Val (13421773 / 134217728)))
       = (Val (13421775 / 134217728), Val (1 / 67108864))"
    unfolding GetDedxMeanAndSigma_def Let_def a n m s d r ..
  have spec: "meanAndStdDev (replicate 16 (13421773 / 134217728)) = (13421773 / 134217728, 0)"
    by (simp add: meanAndStdDev_def Let_def sum_list_replicate map_replicate_const)
  show ?thesis
    using v code spec by (simp add: map_replicate)
qed

text \<open>
  C7, as amended. For a non-empty vector of finite floats on which no operation of the
  function rounds (each running sum, the count, the mean, each difference to the mean,
  its square, each running sum of the squares, the quotient by the count and its square
  root are floats), \<open>GetDedxMeanAndSigma\<close> returns exactly the mean
  \<open>sum(values) / count\<close> and the population standard deviation
  \<open>sqrt(sum((mean - v)^2) / count)\<close>, dividing by the count and not by one less. For a
  vector of \<open>n > 0\<close> elements that all equal \<open>v\<close>, when \<open>n\<close> and the multiples
  \<open>v, 2v, ..., nv\<close> are floats, it returns mean \<open>v\<close> and sigma 0.
\<close>

theorem GetDedxMeanAndSigma_exact:
  assumes "dedx \<noteq> []" and "0 < n"
  shows "(no_rounding dedx \<longrightarrow>
            GetDedxMeanAndSigma (map Val dedx) =
              (Val (fst (meanAndStdDev dedx)), Val (snd (meanAndStdDev dedx))))
         \<and> ((\<forall>k. 1 \<le> k \<and> k \<le> n \<longrightarrow> is_float32 (real k * v)) \<and> is_float32 (real n) \<longrightarrow>
              GetDedxMeanAndSigma (replicate n (Val v)) = (Val v, Val 0))"
  using GetDedxMeanAndSigma_no_rounding [OF assms(1)] GetDedxMeanAndSigma_constant [OF assms(2)]
  by blast

theorem GetDedxMeanAndSigma_exact_witness:
  "GetDedxMeanAndSigma (map Val [2, 4, 4, 4, 5, 5, 7, 9]) = (Val 5, Val 2)
   \<and> GetDedxMeanAndSigma (replicate 3 (Val 7)) = (Val 7, Val 0)"
proof -
  have exact: "no_rounding [2, 4, 4, 4, 5, 5, 7, 9]"
    by (simp add: no_rounding_def is_float32_def round32_eval)
  have spec: "meanAndStdDev [2, 4, 4, 4, 5, 5, 7, 9] = (5, 2)"
    by (simp add: meanAndStdDev_def)
  have multiples: "\<forall>k. 1 \<le> k \<and> k \<le> (3::nat) \<longrightarrow> is_float32 (real k * 7)"
  proof (intro allI impI)
    fix k :: nat
    assume "1 \<le> k \<and> k \<le> 3"
    then have "k = 1 \<or> k = 2 \<or> k = 3"
      by arith
    then show "is_float32 (real k * 7)"
      by (auto simp: is_float32_def round32_eval)
  qed
  have three: "is_float32 (real 3)"
    by (simp add: is_float32_def round32_eval)
  show ?thesis
    using GetDedxMeanAndSigma_exact [of "[2, 4, 4, 4, 5, 5, 7, 9]" 3 7] exact spec multiples three
    by simp
qed

section \<open>Properties of PadDedxVector\<close>

lemma draw_loop_accepts:
  "draw_loop draws = Some (randVal, draws') \<Longrightarrow> 0 \<le> randVal \<and> randVal \<in> set draws"
  by (induction draws) (auto split: if_splits)

lemma pad_loop_front:
  "pad_loop dedxLength originalSize h dedx draws = Some dedx' \<Longrightarrow>
     \<exists>pad. dedx' = pad @ dedx \<and> (\<forall>v \<in> set pad. 0 \<le> v)"
proof (induction dedxLength originalSize h dedx draws rule: pad_loop.induct)
  case (1 dedxLength originalSize h dedx draws)
  show ?case
  proof (cases "h + originalSize < dedxLength")
    case False
    with "1.prems" have "dedx' = dedx"
      by (subst (asm) pad_loop.simps) simp
    then show ?thesis by simp
  next
    case True
    with "1.prems" obtain randVal draws' where
      d: "draw_loop draws = Some (randVal, draws')" and
      r: "pad_loop dedxLength originalSize (h + 1) (randVal # dedx) draws' = Some dedx'"
      by (subst (asm) pad_loop.simps) (auto split: option.splits)
    from "1.IH" [OF True d refl r] obtain pad where
      p: "dedx' = pad @ randVal # dedx" "\<forall>v \<in> set pad. 0 \<le> v"
      by blast
    have "dedx' = (pad @ [randVal]) @ dedx" "\<forall>v \<in> set (pad @ [randVal]). 0 \<le> v"
      using p draw_loop_accepts [OF d] by auto
    then show ?thesis by blast
  qed
qed

text \<open>
  C9. Whenever \<open>PadDedxVector\<close> returns, the vector it leaves is the one it was
  given with values put in front of it, and each of these values is at least 0: this
  holds for every mean and sigma and for every sequence of draws of the distribution.
\<close>

theorem PadDedxVector_nonnegative:
  "PadDedxVector h gauss dedx mean sigma = Some dedx' \<Longrightarrow>
     \<exists>pad. dedx' = pad @ dedx \<and> (\<forall>v \<in> set pad. 0 \<le> v)"
  unfolding PadDedxVector_def Let_def by (rule pad_loop_front)

theorem PadDedxVector_nonnegative_witness:
  "PadDedxVector shortHelper (\<lambda>mean sigma. [-1, 2, -3, -4, 5, 0, 6]) [7, 8, 9] (Val 4) (Val 1)
     = Some [0, 5, 2, 7, 8, 9]
   \<and> (\<exists>pad. [0, 5, 2, 7, 8, 9] = pad @ [7, 8, 9] \<and> (\<forall>v \<in> set pad. (0::real) \<le> v))"
proof -
  have run: "PadDedxVector shortHelper (\<lambda>mean sigma. [-1, 2, -3, -4, 5, 0, 6]) [7, 8, 9]
      (Val 4) (Val 1) = Some [0, 5, 2, 7, 8, 9]"
    by (simp add: PadDedxVector_def shortHelper_def pad_loop.simps)
  from PadDedxVector_nonnegative [OF run] run show ?thesis by simp
qed

text \<open>
  The function does return when the draws hold enough values that are not negative:
  \<open>fDedxLength\<close> of them always suffice.
\<close>

lemma draw_loop_progress:
  "0 < length (filter (\<lambda>r. \<not> r < 0) draws) \<Longrightarrow>
     \<exists>randVal draws'. draw_loop draws = Some (randVal, draws') \<and>
        length (filter (\<lambda>r. \<not> r < 0) draws') = length (filter (\<lambda>r. \<not> r < 0) draws) - 1"
  by (induction draws) auto

lemma pad_loop_returns:
  "unat dedxLength - unat (h + originalSize) \<le> length (filter (\<lambda>r. \<not> r < 0) draws) \<Longrightarrow>
     \<exists>dedx'. pad_loop dedxLength originalSize h dedx draws = Some dedx'"
proof (induction dedxLength originalSize h dedx draws rule: pad_loop.induct)
  case (1 dedxLength originalSize h dedx draws)
  show ?case
  proof (cases "h + originalSize < dedxLength")
    case False
    then show ?thesis by (subst pad_loop.simps) simp
  next
    case True
    then have lt: "unat (h + originalSize) < unat dedxLength"
      by (simp add: word_less_nat_alt)
    then have "0 < length (filter (\<lambda>r. \<not> r < 0) draws)"
      using "1.prems" by linarith
    from draw_loop_progress [OF this] obtain randVal draws' where
      d: "draw_loop draws = Some (randVal, draws')" and
      l: "length (filter (\<lambda>r. \<not> r < 0) draws') = length (filter (\<lambda>r. \<not> r < 0) draws) - 1"
      by blast
    have "unat (h + originalSize + 1) = Suc (unat (h + originalSize))"
      using True by (rule unat_succ)
    then have "unat (h + 1 + originalSize) = Suc (unat (h + originalSize))"
      by (simp add: add.commute add.left_commute)
    then have "unat dedxLength - unat (h + 1 + originalSize)
                 \<le> length (filter (\<lambda>r. \<not> r < 0) draws')"
      using l "1.prems" by linarith
    from "1.IH" [OF True d refl this] obtain dedx' where
      "pad_loop dedxLength originalSize (h + 1) (randVal # dedx) draws' = Some dedx'"
      by blast
    then show ?thesis
      using True d by (subst pad_loop.simps) simp
  qed
qed

lemma PadDedxVector_returns:
  "unat (fDedxLength h) \<le> length (filter (\<lambda>r. \<not> r < 0) (gauss mean sigma)) \<Longrightarrow>
     \<exists>dedx'. PadDedxVector h gauss dedx mean sigma = Some dedx'"
  unfolding PadDedxVector_def Let_def by (rule pad_loop_returns) simp


section \<open>Properties of GetChildParticles\<close>

text \<open>
  What the loop computes: both counts are the number of children when the parent
  \<open>part\<close> is track-like (shower-like), else 0; \<open>nGrand\<close> is the sum of the
  children's \<open>NumDaughters()\<close>, in 32-bit arithmetic.
\<close>

lemma children_loop_counts:
  "children_loop evt part children (nTrack, nShower, nGrand) =
     (nTrack + of_nat (length children) * of_bool (IsTrack evt part),
      nShower + of_nat (length children) * of_bool (IsShower evt part),
      nGrand + word_of_int (sum_list (map (NumDaughters evt) children)))"
  by (induction children arbitrary: nTrack nShower nGrand) (simp_all add: algebra_simps)

lemma GetChildParticles_counts:
  "GetChildParticles evt part =
     (of_nat (length (ChildParticles evt part)) * of_bool (IsTrack evt part),
      of_nat (length (ChildParticles evt part)) * of_bool (IsShower evt part),
      word_of_int (sum_list (map (NumDaughters evt) (ChildParticles evt part))))"
  by (simp add: GetChildParticles_def children_loop_counts)

text \<open>
  C4. The claim: \<open>nTrack\<close> counts the direct children that are track-like,
  \<open>nShower\<close> those that are shower-like, the classification being evaluated on each
  child, and \<open>nGrand\<close> is the sum of the children's own child counts. In the event
  \<open>trackEvent\<close> particle 0 has one track-like and one shower-like child, so the claim
  gives the counts 1 and 1; the code, which asks both questions of the parent, returns
  2 and 0. The third count is the sum of the daughters, 3, as claimed.
\<close>

theorem GetChildParticles_classifies_parent:
  "GetChildParticles (trackEvent []) 0 = (2, 0, 3)
   \<and> length (filter (IsTrack (trackEvent [])) (ChildParticles (trackEvent []) 0)) = 1
   \<and> length (filter (IsShower (trackEvent [])) (ChildParticles (trackEvent []) 0)) = 1
   \<and> sum_list (map (NumDaughters (trackEvent [])) (ChildParticles (trackEvent []) 0)) = 3"
  by (simp add: GetChildParticles_def trackEvent_def)

section \<open>The window of the mean and sigma\<close>

lemma dedxTrunc_loop_eq:
  "unat e < length dedxVector \<Longrightarrow>
     dedxTrunc_loop dedxVector stop e trunc =
       Inr (trunc @ map ((!) dedxVector) (rev [Suc (unat stop) ..< Suc (unat e)]))"
proof (induction dedxVector stop e trunc rule: dedxTrunc_loop.induct)
  case (1 dedxVector stop e trunc)
  show ?case
  proof (cases "stop < e")
    case False
    then have "unat e \<le> unat stop"
      by (simp add: word_less_nat_alt)
    then show ?thesis
      using False by (subst dedxTrunc_loop.simps) simp
  next
    case True
    then have lt: "unat stop < unat e"
      by (simp add: word_less_nat_alt)
    then have pred: "unat (e - 1) = unat e - 1"
      by (intro unat_pred) simp
    have inr: "\<not> length dedxVector \<le> unat e"
      using "1.prems" by simp
    have "dedxTrunc_loop dedxVector stop (e - 1) (trunc @ [dedxVector ! unat e]) =
            Inr ((trunc @ [dedxVector ! unat e])
                 @ map ((!) dedxVector) (rev [Suc (unat stop) ..< Suc (unat (e - 1))]))"
      using "1.IH" [OF True inr] "1.prems" pred by simp
    moreover have "Suc (unat (e - 1)) = unat e"
      using pred lt by simp
    moreover have "[Suc (unat stop) ..< Suc (unat e)] = [Suc (unat stop) ..< unat e] @ [unat e]"
      using lt by simp
    ultimately show ?thesis
      using True inr by (subst dedxTrunc_loop.simps) simp
  qed
qed

lemma unat_pointsForAverage:
  "fMinTrackPoints h \<le> fDedxLength h \<Longrightarrow>
     unat (pointsForAverage h) = (unat (fDedxLength h) - unat (fMinTrackPoints h)) div 3"
  by (simp add: pointsForAverage_def unat_div unat_sub)

lemma unat_avStart:
  assumes "length dedxVector < 2 ^ 32" "unat (pointsForAverage h) < length dedxVector"
  shows "unat (avStart h dedxVector) = length dedxVector - 1 - unat (pointsForAverage h)"
proof -
  have "avStart h dedxVector =
          of_nat (length dedxVector) - of_nat (1 + unat (pointsForAverage h))"
    by (simp add: avStart_def)
  then show ?thesis
    using unat_size_minus [OF assms(1), of "1 + unat (pointsForAverage h)"] assms(2) by simp
qed

lemma unat_avEnd:
  assumes "length dedxVector < 2 ^ 32" "2 * unat (pointsForAverage h) < length dedxVector"
  shows "unat (avEnd h dedxVector) = length dedxVector - 1 - 2 * unat (pointsForAverage h)"
proof -
  have "avEnd h dedxVector =
          of_nat (length dedxVector) - of_nat (1 + 2 * unat (pointsForAverage h))"
    by (simp add: avEnd_def)
  then show ?thesis
    using unat_size_minus [OF assms(1), of "1 + 2 * unat (pointsForAverage h)"] assms(2) by simp
qed

lemma dedxTrunc_eq:
  assumes "length dedxVector < 2 ^ 32" "2 * unat (pointsForAverage h) < length dedxVector"
  shows "dedxTrunc h dedxVector =
           Inr (rev (map ((!) dedxVector)
                  [length dedxVector - 2 * unat (pointsForAverage h) ..<
                   length dedxVector - unat (pointsForAverage h)]))"
proof -
  let ?n = "length dedxVector" and ?p = "unat (pointsForAverage h)"
  have s: "unat (avStart h dedxVector) = ?n - 1 - ?p"
    using assms by (intro unat_avStart) simp_all
  have e: "unat (avEnd h dedxVector) = ?n - 1 - 2 * ?p"
    using assms by (intro unat_avEnd) simp_all
  have "unat (avStart h dedxVector) < ?n"
    using s assms by simp
  then have run: "dedxTrunc h dedxVector =
          Inr ([] @ map ((!) dedxVector)
                 (rev [Suc (unat (avEnd h dedxVector)) ..< Suc (unat (avStart h dedxVector))]))"
    unfolding dedxTrunc_def by (rule dedxTrunc_loop_eq)
  have lo: "Suc (unat (avEnd h dedxVector)) = ?n - 2 * ?p"
    using e assms by simp
  have hi: "Suc (unat (avStart h dedxVector)) = ?n - ?p"
    using s assms by simp
  show ?thesis
    by (simp only: run lo hi append_Nil rev_map)
qed

lemma meanAndStdDev_rev: "meanAndStdDev (rev values) = meanAndStdDev values"
  by (simp add: meanAndStdDev_def Let_def rev_map [symmetric] del: rev_map)

lemma GetDedxMeanAndSigma_mean:
  "fst (GetDedxMeanAndSigma dedx) =
     fdiv (average_loop dedx (Val 0)) (round32 (real (length dedx)))"
  by (simp add: GetDedxMeanAndSigma_def Let_def)

text \<open>
  C3. The claim: for a smoothed vector of size \<open>n\<close> at least \<open>fMinTrackPoints\<close> and
  \<open>p = (fDedxLength - fMinTrackPoints) / 3\<close>, the mean and sigma are taken over the
  elements at the indices \<open>[n-1-2p, n-1-p)\<close>. The loop starts at \<open>n-1-p\<close> and stops
  before \<open>n-1-2p\<close>, so it reads the indices from \<open>n-2p\<close> up to \<open>n-p-1\<close>: the range is
  open at the lower end and closed at the upper one. With the default configuration and
  the 50 samples 0, 1, ..., 49 the code reads the indices 18 to 33 (mean 51/2), the
  claimed window holds the indices 17 to 32 (mean 49/2).
\<close>

theorem dedxTrunc_window_counterexample:
  "dedxTrunc defaultHelper (map real [0..<50]) = Inr (map real (rev [18..<34]))
   \<and> claimed_window defaultHelper (map real [0..<50]) = map real [17..<33]
   \<and> fst (GetDedxMeanAndSigma (map Val (map real (rev [18..<34])))) = Val (51 / 2)
   \<and> fst (GetDedxMeanAndSigma (map Val (claimed_window defaultHelper (map real [0..<50]))))
       = Val (49 / 2)"
proof -
  have a: "dedxTrunc defaultHelper (map real [0..<50]) = Inr (map real (rev [18..<34]))"
    by code_simp
  have b: "claimed_window defaultHelper (map real [0..<50]) = map real [17..<33]"
    by code_simp
  have c: "fdiv (average_loop (map Val (map real (rev [18..<34]))) (Val 0))
             (round32 (real (length (map Val (map real (rev [18..<34])))))) = Val (51 / 2)"
    by (simp add: round32_eval)
  have d: "fdiv (average_loop (map Val (map real [17..<33])) (Val 0))
             (round32 (real (length (map Val (map real [17..<33]))))) = Val (49 / 2)"
    by (simp add: round32_eval)
  show ?thesis
    using a b c d by (simp only: GetDedxMeanAndSigma_mean simp_thms)
qed

text \<open>
  C3, as amended. When \<open>fMinTrackPoints \<le> fDedxLength\<close>, \<open>p\<close> is their difference
  divided by 3 and the smoothed vector has \<open>n\<close> elements with
  \<open>fMinTrackPoints \<le> n\<close>, \<open>2p < n < 2^32\<close>, the window is made of the \<open>p\<close> elements at
  the indices from \<open>n-2p\<close> up to \<open>n-p-1\<close>, read from the last to the first; the exact
  mean and standard deviation of the window are those of the same elements in their
  order.
\<close>

theorem dedxTrunc_window:
  assumes "fMinTrackPoints h \<le> fDedxLength h"
    and "p = (unat (fDedxLength h) - unat (fMinTrackPoints h)) div 3"
    and "unat (fMinTrackPoints h) \<le> length dedxVector"
    and "2 * p < length dedxVector" and "length dedxVector < 2 ^ 32"
  shows "unat (pointsForAverage h) = p
         \<and> dedxTrunc h dedxVector =
             Inr (rev (map ((!) dedxVector) [length dedxVector - 2 * p ..< length dedxVector - p]))
         \<and> meanAndStdDev
               (rev (map ((!) dedxVector) [length dedxVector - 2 * p ..< length dedxVector - p]))
             = meanAndStdDev
                 (map ((!) dedxVector) [length dedxVector - 2 * p ..< length dedxVector - p])"
proof -
  have p: "unat (pointsForAverage h) = p"
    using unat_pointsForAverage [OF assms(1)] assms(2) by simp
  show ?thesis
    using dedxTrunc_eq [of dedxVector h] assms(4,5) p meanAndStdDev_rev by simp
qed

theorem dedxTrunc_window_witness:
  "dedxTrunc shortHelper [1, 2, 3, 4, 5, 6] = Inr [5]"
proof -
  have "fMinTrackPoints shortHelper \<le> fDedxLength shortHelper"
    by (simp add: shortHelper_def)
  from dedxTrunc_window [OF this, of 1 "[1, 2, 3, 4, 5, 6]"] show ?thesis
    by (simp add: shortHelper_def)
qed

text \<open>
  Without \<open>2p < n\<close> the 32-bit subtractions wrap: with MinHits 3 and DedxLength 100
  (\<open>p = 32\<close>) a vector of 10 samples makes \<open>at()\<close> throw.
\<close>

lemma dedxTrunc_wraps:
  "dedxTrunc \<lparr>fMinTrackPoints = 3, fDedxLength = 100, fQMax = 1000, fQJump = 500\<rparr>
     [1, 2, 3, 4, 5, 6, 7, 8, 9, 10] = Inl OutOfRange"
  by (simp add: dedxTrunc_def avStart_def avEnd_def pointsForAverage_def dedxTrunc_loop.simps)


section \<open>Properties of GetNetworkInputs\<close>

lemma pad_step_skipped:
  "unat (fMinTrackPoints h) \<le> length dedxVector \<Longrightarrow>
     pad_step h evt dedxVector dedxMean dedxSigma = ([], Some dedxVector)"
  by (simp add: pad_step_def)

lemma finalInputDedx_length:
  "finalInputDedx h dedxVector = Inr finalDedx \<Longrightarrow> length finalDedx = unat (fDedxLength h)"
  by (auto simp: finalInputDedx_def split: if_splits)

lemma GetNetworkInputs_calls_run:
  assumes "IsTrack evt part" and "unat (fMinTrackPoints h) \<le> length (dEdx evt part)"
    and "SmoothDedxVector h (dEdx evt part) = Inr dedxVector"
    and "dedxTrunc h dedxVector = Inr trunc"
  shows "GetNetworkInputs_calls h evt part =
     (case finalInputDedx h dedxVector of
        Inl e \<Rightarrow> ([CallSmoothDedxVector, CallGetDedxMeanAndSigma], Inl e)
      | Inr finalDedx \<Rightarrow>
          (case GetDeflectionMeanAndSigma evt part of
             Inl e \<Rightarrow> ([CallSmoothDedxVector, CallGetDedxMeanAndSigma,
                        CallGetChildParticles, CallGetDeflectionMeanAndSigma], Inl e)
           | Inr defl \<Rightarrow> ([CallSmoothDedxVector, CallGetDedxMeanAndSigma,
                        CallGetChildParticles, CallGetDeflectionMeanAndSigma],
                Inr [map Val finalDedx,
                     [round32 (real (unat (fst (GetChildParticles evt part)))),
                      round32 (real (unat (fst (snd (GetChildParticles evt part))))),
                      round32 (real (unat (snd (snd (GetChildParticles evt part))))),
                      fst (GetDedxMeanAndSigma (map Val trunc)),
                      snd (GetDedxMeanAndSigma (map Val trunc)),
                      fst defl, snd defl]])))"
proof -
  have "length dedxVector = length (dEdx evt part)"
    using assms(3) by (rule SmoothDedxVector_length)
  then have "unat (fMinTrackPoints h) \<le> length dedxVector"
    using assms(2) by simp
  then have pad: "\<And>m s. pad_step h evt dedxVector m s = ([], Some dedxVector)"
    by (rule pad_step_skipped)
  show ?thesis
    using assms
    by (simp add: GetNetworkInputs_calls_def pad split: prod.splits sum.splits)
qed


lemma GetNetworkInputs_calls_stop:
  "\<not> IsTrack evt part \<or> length (dEdx evt part) < unat (fMinTrackPoints h) \<Longrightarrow>
     GetNetworkInputs_calls h evt part = ([], Inr [])"
  by (auto simp: GetNetworkInputs_calls_def)

lemma GetNetworkInputs_calls_smooth_fails:
  assumes "IsTrack evt part" and "unat (fMinTrackPoints h) \<le> length (dEdx evt part)"
    and "SmoothDedxVector h (dEdx evt part) = Inl e"
  shows "GetNetworkInputs_calls h evt part = ([CallSmoothDedxVector], Inl e)"
  using assms by (simp add: GetNetworkInputs_calls_def)

lemma GetNetworkInputs_calls_trunc_fails:
  assumes "IsTrack evt part" and "unat (fMinTrackPoints h) \<le> length (dEdx evt part)"
    and "SmoothDedxVector h (dEdx evt part) = Inr dedxVector"
    and "dedxTrunc h dedxVector = Inl e"
  shows "GetNetworkInputs_calls h evt part = ([CallSmoothDedxVector], Inl e)"
  using assms by (simp add: GetNetworkInputs_calls_def)

lemma GetNetworkInputs_calls_no_pad:
  "CallPadDedxVector \<notin> set (fst (GetNetworkInputs_calls h evt part))"
proof (cases "IsTrack evt part \<and> unat (fMinTrackPoints h) \<le> length (dEdx evt part)")
  case False
  then show ?thesis
    using GetNetworkInputs_calls_stop [of evt part h] by auto
next
  case True
  show ?thesis
  proof (cases "SmoothDedxVector h (dEdx evt part)")
    case (Inl e)
    with True show ?thesis
      by (simp add: GetNetworkInputs_calls_smooth_fails)
  next
    case (Inr dedxVector)
    note smooth = this
    show ?thesis
    proof (cases "dedxTrunc h dedxVector")
      case (Inl e)
      with True smooth show ?thesis
        by (simp add: GetNetworkInputs_calls_trunc_fails)
    next
      case (Inr trunc)
      with True smooth show ?thesis
        by (simp add: GetNetworkInputs_calls_run split: sum.splits)
    qed
  qed
qed

lemma GetChildParticles_gaussDist:
  "GetChildParticles (evt\<lparr>gaussDist := draws\<rparr>) part = GetChildParticles evt part"
  by (simp add: GetChildParticles_counts)

lemma GetDeflectionMeanAndSigma_gaussDist:
  "GetDeflectionMeanAndSigma (evt\<lparr>gaussDist := draws\<rparr>) part = GetDeflectionMeanAndSigma evt part"
  by (simp add: GetDeflectionMeanAndSigma_def)

lemma GetNetworkInputs_calls_gaussDist:
  "GetNetworkInputs_calls h (evt\<lparr>gaussDist := draws\<rparr>) part = GetNetworkInputs_calls h evt part"
proof (cases "IsTrack evt part \<and> unat (fMinTrackPoints h) \<le> length (dEdx evt part)")
  case False
  then show ?thesis
    using GetNetworkInputs_calls_stop [of evt part h]
      GetNetworkInputs_calls_stop [of "evt\<lparr>gaussDist := draws\<rparr>" part h]
    by auto
next
  case True
  show ?thesis
  proof (cases "SmoothDedxVector h (dEdx evt part)")
    case (Inl e)
    with True show ?thesis
      by (simp add: GetNetworkInputs_calls_smooth_fails)
  next
    case (Inr dedxVector)
    note smooth = this
    show ?thesis
    proof (cases "dedxTrunc h dedxVector")
      case (Inl e)
      with True smooth show ?thesis
        by (simp add: GetNetworkInputs_calls_trunc_fails)
    next
      case (Inr trunc)
      with True smooth show ?thesis
        by (simp add: GetNetworkInputs_calls_run GetChildParticles_gaussDist
            GetDeflectionMeanAndSigma_gaussDist cong: sum.case_cong)
    qed
  qed
qed

lemma GetNetworkInputs_success:
  assumes "GetNetworkInputs h evt part = Inr netInputs" and "netInputs \<noteq> []"
  shows "\<exists>dedxVector trunc defl.
           IsTrack evt part \<and> unat (fMinTrackPoints h) \<le> length (dEdx evt part)
           \<and> SmoothDedxVector h (dEdx evt part) = Inr dedxVector
           \<and> dedxTrunc h dedxVector = Inr trunc
           \<and> unat (fDedxLength h) \<le> length dedxVector
           \<and> GetDeflectionMeanAndSigma evt part = Inr defl
           \<and> netInputs =
               [map Val (drop (length dedxVector - unat (fDedxLength h)) dedxVector),
                [round32 (real (unat (fst (GetChildParticles evt part)))),
                 round32 (real (unat (fst (snd (GetChildParticles evt part))))),
                 round32 (real (unat (snd (snd (GetChildParticles evt part))))),
                 fst (GetDedxMeanAndSigma (map Val trunc)),
                 snd (GetDedxMeanAndSigma (map Val trunc)),
                 fst defl, snd defl]]"
proof (cases "IsTrack evt part \<and> unat (fMinTrackPoints h) \<le> length (dEdx evt part)")
  case False
  then show ?thesis
    using GetNetworkInputs_calls_stop [of evt part h] assms
    by (auto simp: GetNetworkInputs_def)
next
  case True
  show ?thesis
  proof (cases "SmoothDedxVector h (dEdx evt part)")
    case (Inl e)
    with True assms show ?thesis
      by (simp add: GetNetworkInputs_def GetNetworkInputs_calls_smooth_fails)
  next
    case (Inr dedxVector)
    note smooth = this
    show ?thesis
    proof (cases "dedxTrunc h dedxVector")
      case (Inl e)
      with True smooth assms show ?thesis
        by (simp add: GetNetworkInputs_def GetNetworkInputs_calls_trunc_fails)
    next
      case (Inr trunc)
      with True smooth assms show ?thesis
        by (auto simp: GetNetworkInputs_def GetNetworkInputs_calls_run finalInputDedx_def
            split: sum.splits if_splits)
    qed
  qed
qed

lemma sqrt_quarter: "sqrt (1 / 4) = 1 / 2"
  by (rule real_sqrt_unique) (simp_all add: power2_eq_square)

lemma sqrt_64th: "sqrt (1 / 64) = 1 / 8"
  by (rule real_sqrt_unique) (simp_all add: power2_eq_square)

lemma GetNetworkInputs_shortHelper_run7:
  "GetNetworkInputs shortHelper (trackEvent [1, 2, 3, 4, 5, 6, 7]) 0 =
     Inr [map Val [2, 3, 4, 5, 6, 7], [Val 2, Val 0, Val 3, Val 6, Val 0, Val 0, Val 0]]"
proof -
  let ?evt = "trackEvent [1, 2, 3, 4, 5, 6, 7]"
  have t: "IsTrack ?evt 0" and m: "unat (fMinTrackPoints shortHelper) \<le> length (dEdx ?evt 0)"
    by (simp_all add: trackEvent_def shortHelper_def)
  have s: "SmoothDedxVector shortHelper (dEdx ?evt 0) = Inr [1, 2, 3, 4, 5, 6, 7]"
    by (simp add: trackEvent_def shortHelper_def SmoothDedxVector_def smooth_first_def
        smooth_last_def smooth_loop.simps)
  have w: "dedxTrunc shortHelper [1, 2, 3, 4, 5, 6, 7] = Inr [6]"
    by (simp add: dedxTrunc_def avStart_def avEnd_def pointsForAverage_def shortHelper_def
        dedxTrunc_loop.simps)
  have f: "finalInputDedx shortHelper [1, 2, 3, 4, 5, 6, 7] = Inr [2, 3, 4, 5, 6, 7]"
    by (simp add: finalInputDedx_def shortHelper_def)
  have c: "GetChildParticles ?evt 0 = (2, 0, 3)"
    by (simp add: GetChildParticles_def trackEvent_def)
  have n: "round32 2 = Val 2" "round32 0 = Val 0" "round32 3 = Val 3"
    by (simp_all add: round32_eval)
  have g: "GetDedxMeanAndSigma [Val 6] = (Val 6, Val 0)"
    by (simp add: GetDedxMeanAndSigma_def round32_eval)
  have d: "GetDeflectionMeanAndSigma ?evt 0 = Inr (Val 0, Val 0)"
    by (simp add: GetDeflectionMeanAndSigma_def trackEvent_def deflection_loop.simps round32_eval)
  show ?thesis
    unfolding GetNetworkInputs_def GetNetworkInputs_calls_run [OF t m s w]
    by (simp add: f c n g d)
qed

text \<open>
  C6. When the particle is not track-like, or when its track has fewer than
  \<open>fMinTrackPoints\<close> dE/dx samples, \<open>GetNetworkInputs\<close> returns the empty
  \<open>netInputs\<close>: a normal return, not one of the failures.
\<close>

theorem GetNetworkInputs_empty:
  "\<not> IsTrack evt part \<or> length (dEdx evt part) < unat (fMinTrackPoints h) \<Longrightarrow>
     GetNetworkInputs h evt part = Inr []"
  by (auto simp: GetNetworkInputs_def GetNetworkInputs_calls_def)

theorem GetNetworkInputs_empty_witness:
  "GetNetworkInputs defaultHelper (trackEvent []) 1 = Inr []
   \<and> GetNetworkInputs defaultHelper (trackEvent [1, 2, 3]) 0 = Inr []"
  using GetNetworkInputs_empty [of "trackEvent []" 1 defaultHelper]
    GetNetworkInputs_empty [of "trackEvent [1, 2, 3]" 0 defaultHelper]
  by (simp add: trackEvent_def defaultHelper_def)

text \<open>
  C5. No invocation of \<open>GetNetworkInputs\<close> calls \<open>PadDedxVector\<close>: the list of
  member calls never holds it, whatever the configuration, the event and the particle.
  So the result does not depend on the draws of the distribution, and whenever the two
  vectors are returned, the smoothed vector has at least \<open>fMinTrackPoints\<close> elements
  and the sample vector is its tail: there is no synthetic value in it.
\<close>

theorem GetNetworkInputs_never_pads:
  "CallPadDedxVector \<notin> set (fst (GetNetworkInputs_calls h evt part))
   \<and> GetNetworkInputs h (evt\<lparr>gaussDist := draws\<rparr>) part = GetNetworkInputs h evt part
   \<and> (\<forall>netInputs. GetNetworkInputs h evt part = Inr netInputs \<and> netInputs \<noteq> [] \<longrightarrow>
        (\<exists>dedxVector. SmoothDedxVector h (dEdx evt part) = Inr dedxVector
           \<and> unat (fMinTrackPoints h) \<le> length dedxVector
           \<and> hd netInputs =
               map Val (drop (length dedxVector - unat (fDedxLength h)) dedxVector)))"
proof (intro conjI allI impI)
  show "CallPadDedxVector \<notin> set (fst (GetNetworkInputs_calls h evt part))"
    by (rule GetNetworkInputs_calls_no_pad)
  show "GetNetworkInputs h (evt\<lparr>gaussDist := draws\<rparr>) part = GetNetworkInputs h evt part"
    by (simp add: GetNetworkInputs_def GetNetworkInputs_calls_gaussDist)
next
  fix netInputs
  assume "GetNetworkInputs h evt part = Inr netInputs \<and> netInputs \<noteq> []"
  then obtain dedxVector trunc defl where
    s: "SmoothDedxVector h (dEdx evt part) = Inr dedxVector"
    and m: "unat (fMinTrackPoints h) \<le> length (dEdx evt part)"
    and n: "hd netInputs = map Val (drop (length dedxVector - unat (fDedxLength h)) dedxVector)"
    using GetNetworkInputs_success [of h evt part netInputs] by auto
  from SmoothDedxVector_length [OF s] m s n
  show "\<exists>dedxVector. SmoothDedxVector h (dEdx evt part) = Inr dedxVector
           \<and> unat (fMinTrackPoints h) \<le> length dedxVector
           \<and> hd netInputs =
               map Val (drop (length dedxVector - unat (fDedxLength h)) dedxVector)"
    by simp
qed

theorem GetNetworkInputs_never_pads_witness:
  "CallPadDedxVector \<notin> set (fst (GetNetworkInputs_calls shortHelper (trackEvent [1, 2, 3, 4, 5, 6, 7]) 0))
   \<and> (\<exists>dedxVector.
         SmoothDedxVector shortHelper (dEdx (trackEvent [1, 2, 3, 4, 5, 6, 7]) 0) = Inr dedxVector
         \<and> unat (fMinTrackPoints shortHelper) \<le> length dedxVector
         \<and> hd [map Val [2, 3, 4, 5, 6, 7], [Val 2, Val 0, Val 3, Val 6, Val 0, Val 0, Val 0]] =
             map Val (drop (length dedxVector - unat (fDedxLength shortHelper)) dedxVector))"
  using GetNetworkInputs_never_pads [of shortHelper "trackEvent [1, 2, 3, 4, 5, 6, 7]" 0 "\<lambda>m s. []"]
    GetNetworkInputs_shortHelper_run7
  by blast

text \<open>The angle between two unit directions of the plane is the difference of their polar angles.\<close>

lemma angle3_polar:
  assumes "0 \<le> s - t" and "s - t \<le> pi"
  shows "angle3 (cos s, sin s, 0) (cos t, sin t, 0) = s - t"
proof -
  have "cos s * cos t + sin s * sin t = cos (s - t)"
    by (simp add: cos_diff)
  then have "angle3 (cos s, sin s, 0) (cos t, sin t, 0) = arccos (cos (s - t))"
    by (simp add: angle3_def sin_cos_squared_add3)
  then show ?thesis
    using assms by (simp add: arccos_cos)
qed

lemma angle3_first: "angle3 (cos (1 / 2), sin (1 / 2), 0) (1, 0, 0) = 1 / 2"
proof -
  have "0 \<le> (1 / 2 :: real) - 0"
    by simp
  moreover have "(1 / 2 :: real) - 0 \<le> pi"
    using pi_ge_two by linarith
  ultimately have "angle3 (cos (1 / 2), sin (1 / 2), 0) (cos 0, sin 0, 0) = 1 / 2 - 0"
    by (rule angle3_polar)
  then show ?thesis
    by simp
qed

lemma angle3_second:
  "angle3 (cos (3 / 4), sin (3 / 4), 0) (cos (1 / 2), sin (1 / 2), 0) = 1 / 4"
proof -
  have "0 \<le> (3 / 4 :: real) - 1 / 2"
    by simp
  moreover have "(3 / 4 :: real) - 1 / 2 \<le> pi"
    using pi_ge_two by linarith
  ultimately have "angle3 (cos (3 / 4), sin (3 / 4), 0) (cos (1 / 2), sin (1 / 2), 0)
                     = 3 / 4 - 1 / 2"
    by (rule angle3_polar)
  then show ?thesis
    by simp
qed

lemma GetDeflectionMeanAndSigma_bentTrackEvent:
  "GetDeflectionMeanAndSigma (bentTrackEvent samples) 0 = Inr (Val (3 / 8), Val (1 / 8))"
proof -
  have loop: "deflection_loop angle3
                [(1, 0, 0), (cos (1 / 2), sin (1 / 2), 0), (cos (3 / 4), sin (3 / 4), 0)] 1 []
              = Inr [Val (1 / 2), Val (1 / 4)]"
    by (simp add: deflection_loop.simps angle3_first angle3_second) (simp add: round32_eval)
  show ?thesis
    by (simp add: GetDeflectionMeanAndSigma_def bentTrackEvent_def loop)
      (simp add: round32_eval sqrt_64th)
qed

text \<open>
  C10. The claim: in every non-empty result the second vector has exactly 7 elements,
  in the order child-track count, child-shower count, grandchild count, mean and
  standard deviation of the dE/dx window, mean and standard deviation of the angular
  deflection. The vector has 7 elements, and the last five are what the claim names.
  The first two are the outputs \<open>nTrack\<close> and \<open>nShower\<close> of \<open>GetChildParticles\<close>,
  which classifies the parent in place of each child: for a track-like particle with
  one track-like and one shower-like child, nine samples 1, ..., 9 and a bent
  trajectory, with MinHits 3 and DedxLength 9, the second vector starts with 2 and 0,
  where the child-track and child-shower counts are 1 and 1.
\<close>

theorem GetNetworkInputs_counts_of_parent:
  "GetNetworkInputs mediumHelper (bentTrackEvent [1, 2, 3, 4, 5, 6, 7, 8, 9]) 0 =
     Inr [map Val [1, 2, 3, 4, 5, 6, 7, 8, 9],
          [Val 2, Val 0, Val 3, Val (13 / 2), Val (1 / 2), Val (3 / 8), Val (1 / 8)]]
   \<and> length (filter (IsTrack (bentTrackEvent [1, 2, 3, 4, 5, 6, 7, 8, 9]))
         (ChildParticles (bentTrackEvent [1, 2, 3, 4, 5, 6, 7, 8, 9]) 0)) = 1
   \<and> length (filter (IsShower (bentTrackEvent [1, 2, 3, 4, 5, 6, 7, 8, 9]))
         (ChildParticles (bentTrackEvent [1, 2, 3, 4, 5, 6, 7, 8, 9]) 0)) = 1
   \<and> sum_list (map (NumDaughters (bentTrackEvent [1, 2, 3, 4, 5, 6, 7, 8, 9]))
         (ChildParticles (bentTrackEvent [1, 2, 3, 4, 5, 6, 7, 8, 9]) 0)) = 3"
proof -
  let ?evt = "bentTrackEvent [1, 2, 3, 4, 5, 6, 7, 8, 9]"
  have t: "IsTrack ?evt 0" and m: "unat (fMinTrackPoints mediumHelper) \<le> length (dEdx ?evt 0)"
    by (simp_all add: bentTrackEvent_def trackEvent_def mediumHelper_def)
  have s: "SmoothDedxVector mediumHelper (dEdx ?evt 0) = Inr [1, 2, 3, 4, 5, 6, 7, 8, 9]"
    by (simp add: bentTrackEvent_def trackEvent_def mediumHelper_def SmoothDedxVector_def
        smooth_first_def smooth_last_def smooth_loop.simps)
  have w: "dedxTrunc mediumHelper [1, 2, 3, 4, 5, 6, 7, 8, 9] = Inr [7, 6]"
    by (simp add: dedxTrunc_def avStart_def avEnd_def pointsForAverage_def mediumHelper_def
        dedxTrunc_loop.simps)
  have f: "finalInputDedx mediumHelper [1, 2, 3, 4, 5, 6, 7, 8, 9]
             = Inr [1, 2, 3, 4, 5, 6, 7, 8, 9]"
    by (simp add: finalInputDedx_def mediumHelper_def)
  have c: "GetChildParticles ?evt 0 = (2, 0, 3)"
    by (simp add: GetChildParticles_def bentTrackEvent_def trackEvent_def)
  have n: "round32 2 = Val 2" "round32 0 = Val 0" "round32 3 = Val 3"
    by (simp_all add: round32_eval)
  have g: "GetDedxMeanAndSigma [Val 7, Val 6] = (Val (13 / 2), Val (1 / 2))"
    by (simp add: GetDedxMeanAndSigma_def round32_eval sqrt_quarter)
  have d: "GetDeflectionMeanAndSigma ?evt 0 = Inr (Val (3 / 8), Val (1 / 8))"
    by (rule GetDeflectionMeanAndSigma_bentTrackEvent)
  have run: "GetNetworkInputs mediumHelper ?evt 0 =
     Inr [map Val [1, 2, 3, 4, 5, 6, 7, 8, 9],
          [Val 2, Val 0, Val 3, Val (13 / 2), Val (1 / 2), Val (3 / 8), Val (1 / 8)]]"
    unfolding GetNetworkInputs_def GetNetworkInputs_calls_run [OF t m s w]
    by (simp add: f c n g d)
  have children: "length (filter (IsTrack ?evt) (ChildParticles ?evt 0)) = 1"
    "length (filter (IsShower ?evt) (ChildParticles ?evt 0)) = 1"
    "sum_list (map (NumDaughters ?evt) (ChildParticles ?evt 0)) = 3"
    by (simp_all add: bentTrackEvent_def trackEvent_def)
  show ?thesis
    using run children by simp
qed

text \<open>
  The sample vector, when one is returned, has \<open>fDedxLength\<close> elements. A track whose
  number of samples is at least \<open>fMinTrackPoints\<close> and below \<open>fDedxLength\<close> never
  gets that far.
\<close>

lemma GetNetworkInputs_sample_length:
  assumes "GetNetworkInputs h evt part = Inr netInputs" and "netInputs \<noteq> []"
  shows "length (hd netInputs) = unat (fDedxLength h)"
  using GetNetworkInputs_success [OF assms] by auto

lemma GetNetworkInputs_gap_fails:
  assumes "IsTrack evt part" and "unat (fMinTrackPoints h) \<le> length (dEdx evt part)"
    and "length (dEdx evt part) < unat (fDedxLength h)"
  shows "\<exists>e. GetNetworkInputs h evt part = Inl e"
proof (cases "SmoothDedxVector h (dEdx evt part)")
  case (Inl e)
  with assms show ?thesis
    by (simp add: GetNetworkInputs_def GetNetworkInputs_calls_smooth_fails)
next
  case (Inr dedxVector)
  note smooth = this
  have len: "length dedxVector < unat (fDedxLength h)"
    using SmoothDedxVector_length [OF smooth] assms(3) by simp
  show ?thesis
  proof (cases "dedxTrunc h dedxVector")
    case (Inl e)
    with assms smooth show ?thesis
      by (simp add: GetNetworkInputs_def GetNetworkInputs_calls_trunc_fails)
  next
    case (Inr trunc)
    with assms smooth len show ?thesis
      by (simp add: GetNetworkInputs_def GetNetworkInputs_calls_run finalInputDedx_def)
  qed
qed

text \<open>
  C2. The claim: for every number of samples from \<open>fMinTrackPoints\<close> on, also for
  \<open>fMinTrackPoints\<close> itself, the sample vector has exactly \<open>fDedxLength\<close> elements.
  With the default configuration and a track of 50 samples, all 10, the padding is
  skipped (50 is not below \<open>fMinTrackPoints\<close>) and \<open>dedxVector.end() - fDedxLength\<close>
  lies 50 elements before \<open>begin()\<close>: the behaviour is undefined, no vector of 100
  elements is built from the samples.
\<close>

theorem GetNetworkInputs_minLength_undefined:
  "GetNetworkInputs defaultHelper (trackEvent (replicate 50 10)) 0 = Inl UndefinedBehaviour"
proof -
  let ?evt = "trackEvent (replicate 50 10)"
  have t: "IsTrack ?evt 0" and d: "dEdx ?evt 0 = replicate 50 10"
    by (simp_all add: trackEvent_def)
  have m: "unat (fMinTrackPoints defaultHelper) \<le> length (dEdx ?evt 0)"
    by (simp add: d defaultHelper_def)
  have s: "SmoothDedxVector defaultHelper (dEdx ?evt 0) = Inr (replicate 50 10)"
    unfolding d by (rule SmoothDedxVector_no_jump) (auto simp: defaultHelper_def)
  have p: "unat (pointsForAverage defaultHelper) = 16"
    by (simp add: pointsForAverage_def defaultHelper_def)
  have w: "dedxTrunc defaultHelper (replicate 50 10) =
             Inr (rev (map ((!) (replicate 50 10)) [50 - 2 * 16 ..< 50 - 16]))"
    using dedxTrunc_eq [of "replicate 50 10" defaultHelper] by (simp only: p length_replicate) simp
  have f: "finalInputDedx defaultHelper (replicate 50 10) = Inl UndefinedBehaviour"
    by (simp add: finalInputDedx_def defaultHelper_def)
  show ?thesis
    unfolding GetNetworkInputs_def GetNetworkInputs_calls_run [OF t m s w]
    by (simp add: f)
qed


end
